theory Spec2Isabelle
  imports Main
begin

section \<open>Data model\<close>

text \<open>
  The entities of the coupon module, one record per table. Field names carry a
  one-letter prefix of their table (\<open>c_\<close>, \<open>b_\<close>, \<open>a_\<close>), since the three entities
  share names such as \<open>id\<close> and \<open>metadata\<close>. Identifiers (uuid columns) are natural
  numbers, timestamps are milliseconds since the epoch, a jsonb object is a map
  from keys to values.
\<close>

datatype CouponStatus = AVAILABLE | ASSIGNED | LOCKED | REDEEMED | EXPIRED

datatype error =
    NotFoundException
  | ConflictException
  | BusinessException
  | QueryFailedError
  | CacheKeyError
  | RedisError

type_synonym Metadata = "string \<rightharpoonup> string"

record CouponBook =
  b_id :: nat
  b_isActive :: bool
  b_validFrom :: int
  b_validUntil :: int
  b_maxRedemptionsPerUser :: "int option"
  b_maxAssignmentsPerUser :: "int option"
  b_totalCodes :: int

record Coupon =
  c_id :: nat
  c_couponBookId :: nat
  c_code :: string
  c_status :: CouponStatus
  c_version :: int
  c_updatedAt :: int

record CouponAssignment =
  a_id :: nat
  a_couponId :: nat
  a_userId :: string
  a_assignedAt :: int
  a_lockedAt :: "int option"
  a_lockExpiresAt :: "int option"
  a_redeemedAt :: "int option"
  a_redemptionCount :: int
  a_metadata :: "Metadata option"

record Database =
  coupon_books :: "CouponBook list"
  coupons :: "Coupon list"
  coupon_assignments :: "CouponAssignment list"

text \<open>
  The columns \<open>version\<close> and \<open>redemption_count\<close> have the Postgres type
  \<open>int\<close> (32 bits). A statement that would store a value outside that range
  fails ("integer out of range"), which TypeORM raises as \<open>QueryFailedError\<close>.
\<close>

definition int4 :: "int \<Rightarrow> bool" where
  "int4 x \<longleftrightarrow> - 2147483648 \<le> x \<and> x \<le> 2147483647"

text \<open>
  What \<open>manager.query\<close> resolves to. For a SELECT it is the array of rows. For an
  UPDATE the Postgres driver of TypeORM (library code, not among the sources)
  resolves to the two-element array \<open>[rows, affected]\<close>: the RETURNING rows and
  the number of rows written.
\<close>

datatype 'r QueryResult = Rows "'r list" | RowsAffected "'r list" nat

text \<open>
  \<open>QueryResultUtil.isEmpty\<close> is \<open>!result || result.length === 0\<close>. The array
  \<open>[rows, affected]\<close> has length 2 whatever \<open>rows\<close> holds.
\<close>

fun QueryResultUtil_isEmpty :: "'r QueryResult \<Rightarrow> bool" where
  "QueryResultUtil_isEmpty (Rows rows) = (rows = [])"
| "QueryResultUtil_isEmpty (RowsAffected rows affected) = False"

text \<open>
  \<open>dataSource.transaction\<close>: the callback's writes are kept when it returns and
  rolled back when it throws.
\<close>

definition transaction ::
  "(Database \<Rightarrow> error + ('r \<times> Database)) \<Rightarrow> Database \<Rightarrow> (error + 'r) \<times> Database" where
  "transaction f db =
     (case f db of
        Inl e \<Rightarrow> (Inl e, db)
      | Inr (r, db') \<Rightarrow> (Inr r, db'))"

text \<open>Primary-key lookups, used to state what an operation did to a row.\<close>

definition findCoupon :: "Database \<Rightarrow> nat \<Rightarrow> Coupon option" where
  "findCoupon db couponId = find (\<lambda>c. c_id c = couponId) (coupons db)"

definition findAssignment :: "Database \<Rightarrow> nat \<Rightarrow> CouponAssignment option" where
  "findAssignment db assignmentId = find (\<lambda>a. a_id a = assignmentId) (coupon_assignments db)"

text \<open>The primary keys of \<open>coupons\<close> and \<open>coupon_assignments\<close> are unique.\<close>

definition primary_keys :: "Database \<Rightarrow> bool" where
  "primary_keys db \<longleftrightarrow>
     distinct (map c_id (coupons db)) \<and> distinct (map a_id (coupon_assignments db))"

section \<open>Validators of the coupons service\<close>

definition isFullyRedeemed :: "int \<Rightarrow> int option \<Rightarrow> bool" where
  "isFullyRedeemed currentCount maxRedemptions =
     (case maxRedemptions of None \<Rightarrow> False | Some m \<Rightarrow> currentCount \<ge> m)"

definition getStatusAfterRedemption :: "bool \<Rightarrow> CouponStatus" where
  "getStatusAfterRedemption fullyRedeemed = (if fullyRedeemed then REDEEMED else ASSIGNED)"

definition isValidStatusForRedemption :: "CouponStatus \<Rightarrow> bool" where
  "isValidStatusForRedemption status =
     (if status = REDEEMED then False else status = ASSIGNED \<or> status = LOCKED)"

section \<open>Redemption inside the transaction\<close>

text \<open>
  The SELECT of \<open>redeemCouponInTransaction\<close>: coupons joined with their book and
  with the assignment of the given user, filtered by code.
\<close>

definition selectForRedeem ::
  "Database \<Rightarrow> string \<Rightarrow> string \<Rightarrow> (Coupon \<times> CouponBook \<times> CouponAssignment) list" where
  "selectForRedeem db code userId =
     [(c, cb, a).
        c \<leftarrow> coupons db,
        cb \<leftarrow> coupon_books db,
        a \<leftarrow> coupon_assignments db,
        c_code c = code \<and> c_couponBookId c = b_id cb \<and> a_couponId a = c_id c \<and> a_userId a = userId]"

text \<open>
  \<open>UPDATE coupons SET status = $2, version = version + 1, updated_at = NOW()
  WHERE id = $1 AND version = $3 RETURNING version\<close>: what the query resolves to
  and the new table. The statement fails when the version of a row it writes
  would leave the range of the column.
\<close>

definition updateCouponIfVersion ::
  "Database \<Rightarrow> nat \<Rightarrow> CouponStatus \<Rightarrow> int \<Rightarrow> int \<Rightarrow> error + (int QueryResult \<times> Database)" where
  "updateCouponIfVersion db couponId newStatus version now =
     (let matching = filter (\<lambda>c. c_id c = couponId \<and> c_version c = version) (coupons db) in
      if list_ex (\<lambda>c. \<not> int4 (c_version c + 1)) matching then Inl QueryFailedError
      else
        Inr (RowsAffected (map (\<lambda>c. c_version c + 1) matching) (length matching),
             db\<lparr>coupons :=
                  map (\<lambda>c. if c_id c = couponId \<and> c_version c = version
                            then c\<lparr>c_status := newStatus, c_version := c_version c + 1,
                                   c_updatedAt := now\<rparr>
                            else c)
                      (coupons db)\<rparr>))"

text \<open>
  \<open>UPDATE coupon_assignments SET redemption_count = $2, redeemed_at = NOW(),
  locked_at = NULL, lock_expires_at = NULL, metadata = $3 WHERE id = $1\<close>, where
  \<open>$3\<close> is \<open>JSON.stringify(metadata || {})\<close>. The statement fails when the
  count passed as \<open>$2\<close> is outside the range of the column.
\<close>

definition updateAssignmentRedeemed ::
  "Database \<Rightarrow> nat \<Rightarrow> int \<Rightarrow> Metadata option \<Rightarrow> int \<Rightarrow> error + Database" where
  "updateAssignmentRedeemed db assignmentId newCount metadata now =
     (if \<not> int4 newCount then Inl QueryFailedError
      else
        Inr (db\<lparr>coupon_assignments :=
               map (\<lambda>a. if a_id a = assignmentId
                         then a\<lparr>a_redemptionCount := newCount,
                                a_redeemedAt := Some now,
                                a_lockedAt := None,
                                a_lockExpiresAt := None,
                                a_metadata := Some (case metadata of None \<Rightarrow> Map.empty | Some m \<Rightarrow> m)\<rparr>
                         else a)
                   (coupon_assignments db)\<rparr>))"

record RedeemResult =
  r_newCount :: int
  r_maxRedemptions :: "int option"
  r_isFullyRedeemed :: bool

text \<open>
  The two writes of \<open>redeemCouponInTransaction\<close>, from the compare-and-set on the
  coupon row to the return. They are a function of their own so that the
  compare-and-set can be stated on any table contents, also on contents another
  writer has changed since the SELECT. The test for a lost compare-and-set is
  \<open>QueryResultUtil.isEmpty(updateResult)\<close> on what the UPDATE resolved to.
\<close>

definition redeemWrites ::
  "Database \<Rightarrow> nat \<Rightarrow> CouponStatus \<Rightarrow> int \<Rightarrow> nat \<Rightarrow> int \<Rightarrow> int option \<Rightarrow> bool \<Rightarrow>
     Metadata option \<Rightarrow> int \<Rightarrow> error + (RedeemResult \<times> Database)" where
  "redeemWrites db couponId newStatus version assignmentId count maxR fully metadata now =
     (case updateCouponIfVersion db couponId newStatus version now of
        Inl e \<Rightarrow> Inl e
      | Inr (updateResult, db1) \<Rightarrow>
          if QueryResultUtil_isEmpty updateResult then Inl ConflictException
          else
            (case updateAssignmentRedeemed db1 assignmentId count metadata now of
               Inl e \<Rightarrow> Inl e
             | Inr db2 \<Rightarrow>
                 Inr (\<lparr>r_newCount = count, r_maxRedemptions = maxR, r_isFullyRedeemed = fully\<rparr>,
                      db2)))"

definition redeemCouponInTransaction ::
  "string \<Rightarrow> string \<Rightarrow> Metadata option \<Rightarrow> int \<Rightarrow> Database \<Rightarrow> error + (RedeemResult \<times> Database)" where
  "redeemCouponInTransaction code userId metadata now db =
     (case selectForRedeem db code userId of
        [] \<Rightarrow> Inl NotFoundException
      | (c, cb, a) # _ \<Rightarrow>
          if \<not> isValidStatusForRedemption (c_status c) then Inl BusinessException
          else if (case b_maxRedemptionsPerUser cb of
                     None \<Rightarrow> False
                   | Some m \<Rightarrow> a_redemptionCount a \<ge> m) then Inl BusinessException
          else
            let count = a_redemptionCount a + 1;
                fully = isFullyRedeemed count (b_maxRedemptionsPerUser cb);
                newStatus = getStatusAfterRedemption fully
            in redeemWrites db (c_id c) newStatus (c_version c) (a_id a) count
                 (b_maxRedemptionsPerUser cb) fully metadata now)"

section \<open>The cache plane\<close>

text \<open>
  Redis as the cache service uses it: two buckets (clients with their own key
  prefix), each a map from keys to the expiry of the entry (\<open>None\<close>: no expiry).
  An entry is visible while the clock is before its expiry. Connection failures
  and timeouts of Redis are not modelled; commands that Redis rejects are.
\<close>

record Cache =
  dedup :: "string \<rightharpoonup> int option"
  locks :: "string \<rightharpoonup> int option"

definition COUPON_LOCK :: string where
  "COUPON_LOCK = ''coupon-lock''"

definition COUPON_REDEEM :: string where
  "COUPON_REDEEM = ''coupon-redeem''"

definition MAX_KEY_LENGTH :: nat where
  "MAX_KEY_LENGTH = 512"

definition redis_exists :: "(string \<rightharpoonup> int option) \<Rightarrow> string \<Rightarrow> int \<Rightarrow> bool" where
  "redis_exists bucket key now =
     (case bucket key of
        None \<Rightarrow> False
      | Some None \<Rightarrow> True
      | Some (Some expiry) \<Rightarrow> now < expiry)"

text \<open>\<open>CacheKeyBuilder.validate\<close> throws on an empty or over-long key.\<close>

definition CacheKeyBuilder_validate :: "string \<Rightarrow> error + string" where
  "CacheKeyBuilder_validate key =
     (if key = [] \<or> length key > MAX_KEY_LENGTH then Inl CacheKeyError else Inr key)"

definition CacheKeyBuilder_dedup :: "string \<Rightarrow> string \<Rightarrow> error + string" where
  "CacheKeyBuilder_dedup feature hash = CacheKeyBuilder_validate (feature @ '':'' @ hash)"

definition CacheKeyBuilder_lock :: "string \<Rightarrow> string \<Rightarrow> error + string" where
  "CacheKeyBuilder_lock feature resource = CacheKeyBuilder_validate (feature @ '':'' @ resource)"

text \<open>
  \<open>setDedup\<close> is \<open>SET key 1 EX ttl\<close> (plain \<open>SET\<close> when the ttl is 0, by the
  truthiness test of \<open>CacheService.set\<close>); Redis rejects a negative expiry.
\<close>

definition setDedup :: "string \<Rightarrow> string \<Rightarrow> int \<Rightarrow> int \<Rightarrow> Cache \<Rightarrow> error + Cache" where
  "setDedup feature hash ttl now cache =
     (case CacheKeyBuilder_dedup feature hash of
        Inl e \<Rightarrow> Inl e
      | Inr key \<Rightarrow>
          if ttl < 0 then Inl RedisError
          else Inr (cache\<lparr>dedup := (dedup cache)
                      (key \<mapsto> (if ttl \<noteq> 0 then Some (now + ttl * 1000) else None))\<rparr>))"

definition hasDedup :: "string \<Rightarrow> string \<Rightarrow> int \<Rightarrow> Cache \<Rightarrow> error + bool" where
  "hasDedup feature hash now cache =
     (case CacheKeyBuilder_dedup feature hash of
        Inl e \<Rightarrow> Inl e
      | Inr key \<Rightarrow> Inr (redis_exists (dedup cache) key now))"

text \<open>
  \<open>acquireLock\<close> is \<open>SET key now EX ttl NX\<close>; every failure of the command,
  such as a non-positive expiry, is caught and reported as "not acquired".
\<close>

definition acquireLock :: "string \<Rightarrow> string \<Rightarrow> int \<Rightarrow> int \<Rightarrow> Cache \<Rightarrow> error + (bool \<times> Cache)" where
  "acquireLock feature resource ttlSeconds now cache =
     (case CacheKeyBuilder_lock feature resource of
        Inl e \<Rightarrow> Inl e
      | Inr key \<Rightarrow>
          if ttlSeconds \<le> 0 then Inr (False, cache)
          else if redis_exists (locks cache) key now then Inr (False, cache)
          else Inr (True, cache\<lparr>locks := (locks cache)(key \<mapsto> Some (now + ttlSeconds * 1000))\<rparr>))"

definition releaseLock :: "string \<Rightarrow> string \<Rightarrow> Cache \<Rightarrow> error + Cache" where
  "releaseLock feature resource cache =
     (case CacheKeyBuilder_lock feature resource of
        Inl e \<Rightarrow> Inl e
      | Inr key \<Rightarrow> Inr (cache\<lparr>locks := (locks cache)(key := None)\<rparr>))"

section \<open>Redeem: the public operation\<close>

definition buildCouponUserKey :: "string \<Rightarrow> string \<Rightarrow> string" where
  "buildCouponUserKey normalizedCode userId = normalizedCode @ '':'' @ userId"

definition checkAndSetRedemptionDedup :: "string \<Rightarrow> int \<Rightarrow> Cache \<Rightarrow> error + Cache" where
  "checkAndSetRedemptionDedup couponUserKey now cache =
     (case hasDedup COUPON_REDEEM couponUserKey now cache of
        Inl e \<Rightarrow> Inl e
      | Inr isDuplicate \<Rightarrow>
          if isDuplicate then Inl ConflictException
          else setDedup COUPON_REDEEM couponUserKey 60 now cache)"

definition acquireRedemptionLock :: "string \<Rightarrow> int \<Rightarrow> Cache \<Rightarrow> error + Cache" where
  "acquireRedemptionLock couponUserKey now cache =
     (case acquireLock COUPON_REDEEM couponUserKey 10 now cache of
        Inl e \<Rightarrow> Inl e
      | Inr (lockAcquired, cache') \<Rightarrow>
          if \<not> lockAcquired then Inl ConflictException else Inr cache')"

definition releaseRedemptionLock :: "string \<Rightarrow> Cache \<Rightarrow> error + Cache" where
  "releaseRedemptionLock couponUserKey cache = releaseLock COUPON_REDEEM couponUserKey cache"

record RedeemResponse =
  rr_couponCode :: string
  rr_redeemedAt :: int
  rr_redemptionCount :: int
  rr_redemptionsRemaining :: "int option"
  rr_fullyRedeemed :: bool

definition redeemResponse :: "string \<Rightarrow> int \<Rightarrow> RedeemResult \<Rightarrow> RedeemResponse" where
  "redeemResponse code now res =
     \<lparr>rr_couponCode = code,
      rr_redeemedAt = now,
      rr_redemptionCount = r_newCount res,
      rr_redemptionsRemaining =
        (case r_maxRedemptions res of
           None \<Rightarrow> None
         | Some m \<Rightarrow> if m \<noteq> 0 then Some (m - r_newCount res) else None),
      rr_fullyRedeemed = r_isFullyRedeemed res\<rparr>"

text \<open>
  \<open>redeemCoupon\<close>: the dedup check and the lock acquisition come before the
  \<open>try\<close>; the \<open>finally\<close> block releases the lock.
\<close>

definition redeemCoupon ::
  "string \<Rightarrow> string \<Rightarrow> Metadata option \<Rightarrow> int \<Rightarrow> Cache \<times> Database \<Rightarrow>
     (error + RedeemResponse) \<times> Cache \<times> Database" where
  "redeemCoupon code userId metadata now s =
     (case s of (cache, db) \<Rightarrow>
        let couponUserKey = buildCouponUserKey code userId in
        case checkAndSetRedemptionDedup couponUserKey now cache of
          Inl e \<Rightarrow> (Inl e, cache, db)
        | Inr cache1 \<Rightarrow>
            (case acquireRedemptionLock couponUserKey now cache1 of
               Inl e \<Rightarrow> (Inl e, cache1, db)
             | Inr cache2 \<Rightarrow>
                 (case transaction (redeemCouponInTransaction code userId metadata now) db of
                    (r, db') \<Rightarrow>
                      (case releaseRedemptionLock couponUserKey cache2 of
                         Inl e \<Rightarrow> (Inl e, cache2, db')
                       | Inr cache3 \<Rightarrow>
                           (case r of
                              Inl e \<Rightarrow> (Inl e, cache3, db')
                            | Inr res \<Rightarrow> (Inr (redeemResponse code now res), cache3, db'))))))"

section \<open>Writes through the entity manager\<close>

text \<open>
  Modelled from the spec: \<open>EntityManager.update\<close> belongs to the TypeORM library,
  which is not among the sources. The \<open>Coupon\<close> entity declares \<open>version\<close> as a
  \<open>@VersionColumn\<close> ("automatically incremented by TypeORM on each update") and
  \<open>updatedAt\<close> as an \<open>@UpdateDateColumn\<close>, and the spec has the status update
  "implicitly bump" the version: \<open>manager.update(Coupon, id, {status})\<close> sets the
  status of the row with that id, adds one to its version and stamps it. As
  with every write to the column, the statement fails when the new version
  would leave its range.
\<close>

definition managerUpdateCouponStatus ::
  "Database \<Rightarrow> nat \<Rightarrow> CouponStatus \<Rightarrow> int \<Rightarrow> error + Database" where
  "managerUpdateCouponStatus db couponId status now =
     (if list_ex (\<lambda>c. c_id c = couponId \<and> \<not> int4 (c_version c + 1)) (coupons db)
      then Inl QueryFailedError
      else
        Inr (db\<lparr>coupons :=
               map (\<lambda>c. if c_id c = couponId
                         then c\<lparr>c_status := status, c_version := c_version c + 1,
                                c_updatedAt := now\<rparr>
                         else c)
                   (coupons db)\<rparr>))"

text \<open>
  \<open>manager.save\<close> of a new assignment: an INSERT with the column defaults and a
  generated id. The unique constraint on (couponId, userId) makes it fail.
\<close>

definition freshId :: "nat list \<Rightarrow> nat" where
  "freshId ids = Suc (fold max ids 0)"

definition saveNewAssignment ::
  "Database \<Rightarrow> nat \<Rightarrow> string \<Rightarrow> int \<Rightarrow> error + (CouponAssignment \<times> Database)" where
  "saveNewAssignment db couponId userId now =
     (if list_ex (\<lambda>a. a_couponId a = couponId \<and> a_userId a = userId) (coupon_assignments db)
      then Inl QueryFailedError
      else
        let saved = \<lparr>a_id = freshId (map a_id (coupon_assignments db)),
                     a_couponId = couponId,
                     a_userId = userId,
                     a_assignedAt = now,
                     a_lockedAt = None,
                     a_lockExpiresAt = None,
                     a_redeemedAt = None,
                     a_redemptionCount = 0,
                     a_metadata = None\<rparr>
        in Inr (saved, db\<lparr>coupon_assignments := coupon_assignments db @ [saved]\<rparr>))"

section \<open>Assignment\<close>

definition findCouponBookOrFail :: "Database \<Rightarrow> nat \<Rightarrow> error + CouponBook" where
  "findCouponBookOrFail db bookId =
     (case find (\<lambda>b. b_id b = bookId) (coupon_books db) of
        None \<Rightarrow> Inl NotFoundException
      | Some book \<Rightarrow> Inr book)"

definition validateCouponBook :: "CouponBook \<Rightarrow> int \<Rightarrow> error + unit" where
  "validateCouponBook book now =
     (if \<not> b_isActive book then Inl BusinessException
      else if now > b_validUntil book then Inl BusinessException
      else if now < b_validFrom book then Inl BusinessException
      else Inr ())"

definition checkUserAssignmentLimit :: "Database \<Rightarrow> string \<Rightarrow> nat \<Rightarrow> int option \<Rightarrow> error + unit" where
  "checkUserAssignmentLimit db userId bookId maxAssignments =
     (case maxAssignments of
        None \<Rightarrow> Inr ()
      | Some m \<Rightarrow>
          let count = length [(a, c).
                        a \<leftarrow> coupon_assignments db,
                        c \<leftarrow> coupons db,
                        c_id c = a_couponId a \<and> c_couponBookId c = bookId \<and> a_userId a = userId]
          in if int count \<ge> m then Inl BusinessException else Inr ())"

definition calculateRemainingRedemptions :: "int option \<Rightarrow> int \<Rightarrow> int option" where
  "calculateRemainingRedemptions maxR redemptionCount =
     (case maxR of None \<Rightarrow> None | Some m \<Rightarrow> Some (m - redemptionCount))"

record CouponAssignmentResponse =
  ar_couponCode :: string
  ar_assignmentId :: nat
  ar_assignedAt :: int
  ar_expiresAt :: int
  ar_redemptionsRemaining :: "int option"
  ar_redemptionCount :: int

definition buildAssignmentResponse :: "CouponAssignment \<Rightarrow> CouponBook \<Rightarrow> string \<Rightarrow> CouponAssignmentResponse" where
  "buildAssignmentResponse assignment book couponCode =
     \<lparr>ar_couponCode = couponCode,
      ar_assignmentId = a_id assignment,
      ar_assignedAt = a_assignedAt assignment,
      ar_expiresAt = b_validUntil book,
      ar_redemptionsRemaining =
        calculateRemainingRedemptions (b_maxRedemptionsPerUser book) (a_redemptionCount assignment),
      ar_redemptionCount = a_redemptionCount assignment\<rparr>"

text \<open>
  \<open>ORDER BY RANDOM() LIMIT 1\<close> over the AVAILABLE coupons of the book: the random
  choice is the argument \<open>rnd\<close>, reduced to an index into the candidate rows.
\<close>

definition selectRandomAvailable :: "Database \<Rightarrow> nat \<Rightarrow> nat \<Rightarrow> Coupon list" where
  "selectRandomAvailable db couponBookId rnd =
     (let candidates = filter (\<lambda>c. c_couponBookId c = couponBookId \<and> c_status c = AVAILABLE) (coupons db)
      in if candidates = [] then [] else [candidates ! (rnd mod length candidates)])"

definition assignRandomCouponInTransaction ::
  "nat \<Rightarrow> string \<Rightarrow> nat \<Rightarrow> int \<Rightarrow> Database \<Rightarrow> error + ((CouponAssignment \<times> string) \<times> Database)" where
  "assignRandomCouponInTransaction couponBookId userId rnd now db =
     (case selectRandomAvailable db couponBookId rnd of
        [] \<Rightarrow> Inl BusinessException
      | row # _ \<Rightarrow>
          (case managerUpdateCouponStatus db (c_id row) ASSIGNED now of
             Inl e \<Rightarrow> Inl e
           | Inr db1 \<Rightarrow>
               (case saveNewAssignment db1 (c_id row) userId now of
                  Inl e \<Rightarrow> Inl e
                | Inr (savedAssignment, db2) \<Rightarrow> Inr ((savedAssignment, c_code row), db2))))"

definition assignRandomCoupon ::
  "nat \<Rightarrow> string \<Rightarrow> nat \<Rightarrow> int \<Rightarrow> Database \<Rightarrow> (error + CouponAssignmentResponse) \<times> Database" where
  "assignRandomCoupon couponBookId userId rnd now db =
     (case findCouponBookOrFail db couponBookId of
        Inl e \<Rightarrow> (Inl e, db)
      | Inr book \<Rightarrow>
          (case validateCouponBook book now of
             Inl e \<Rightarrow> (Inl e, db)
           | Inr _ \<Rightarrow>
               (case checkUserAssignmentLimit db userId couponBookId (b_maxAssignmentsPerUser book) of
                  Inl e \<Rightarrow> (Inl e, db)
                | Inr _ \<Rightarrow>
                    (case transaction (assignRandomCouponInTransaction couponBookId userId rnd now) db of
                       (Inl e, db') \<Rightarrow> (Inl e, db')
                     | (Inr (assignment, couponCode), db') \<Rightarrow>
                         (Inr (buildAssignmentResponse assignment book couponCode), db')))))"

text \<open>
  \<open>assignSpecificCouponInTransaction\<close> receives the coupon entity loaded before the
  transaction and tests the status of that entity.
\<close>

definition assignSpecificCouponInTransaction ::
  "Coupon \<Rightarrow> string \<Rightarrow> int \<Rightarrow> Database \<Rightarrow> error + ((CouponAssignment \<times> string) \<times> Database)" where
  "assignSpecificCouponInTransaction coupon userId now db =
     (let locked = filter (\<lambda>c. c_id c = c_id coupon) (coupons db) in
      if locked = [] then Inl ConflictException
      else if c_status coupon \<noteq> AVAILABLE then Inl BusinessException
      else
        (case managerUpdateCouponStatus db (c_id coupon) ASSIGNED now of
           Inl e \<Rightarrow> Inl e
         | Inr db1 \<Rightarrow>
             (case saveNewAssignment db1 (c_id coupon) userId now of
                Inl e \<Rightarrow> Inl e
              | Inr (savedAssignment, db2) \<Rightarrow> Inr ((savedAssignment, c_code coupon), db2))))"

definition assignSpecificCoupon ::
  "string \<Rightarrow> string \<Rightarrow> int \<Rightarrow> Database \<Rightarrow> (error + CouponAssignmentResponse) \<times> Database" where
  "assignSpecificCoupon code userId now db =
     (case find (\<lambda>c. c_code c = code) (coupons db) of
        None \<Rightarrow> (Inl NotFoundException, db)
      | Some coupon \<Rightarrow>
          (case find (\<lambda>b. b_id b = c_couponBookId coupon) (coupon_books db) of
             None \<Rightarrow> (Inl NotFoundException, db)
           | Some book \<Rightarrow>
               (case validateCouponBook book now of
                  Inl e \<Rightarrow> (Inl e, db)
                | Inr _ \<Rightarrow>
                    (case checkUserAssignmentLimit db userId (c_couponBookId coupon)
                            (b_maxAssignmentsPerUser book) of
                       Inl e \<Rightarrow> (Inl e, db)
                     | Inr _ \<Rightarrow>
                         (case transaction (assignSpecificCouponInTransaction coupon userId now) db of
                            (Inl e, db') \<Rightarrow> (Inl e, db')
                          | (Inr (assignment, couponCode), db') \<Rightarrow>
                              (Inr (buildAssignmentResponse assignment book couponCode), db'))))))"

section \<open>Lock and unlock\<close>

text \<open>The SELECT of lock and unlock: coupons joined with the user's assignment.\<close>

definition selectForLock :: "Database \<Rightarrow> string \<Rightarrow> string \<Rightarrow> (Coupon \<times> CouponAssignment) list" where
  "selectForLock db code userId =
     [(c, a).
        c \<leftarrow> coupons db,
        a \<leftarrow> coupon_assignments db,
        c_code c = code \<and> a_couponId a = c_id c \<and> a_userId a = userId]"

definition updateAssignmentLock ::
  "Database \<Rightarrow> nat \<Rightarrow> string \<Rightarrow> int option \<Rightarrow> int option \<Rightarrow> Database" where
  "updateAssignmentLock db couponId userId lockedAt lockExpiresAt =
     db\<lparr>coupon_assignments :=
          map (\<lambda>a. if a_couponId a = couponId \<and> a_userId a = userId
                    then a\<lparr>a_lockedAt := lockedAt, a_lockExpiresAt := lockExpiresAt\<rparr>
                    else a)
              (coupon_assignments db)\<rparr>"

definition lockCouponInTransaction ::
  "string \<Rightarrow> string \<Rightarrow> int \<Rightarrow> int \<Rightarrow> Database \<Rightarrow> error + (int \<times> Database)" where
  "lockCouponInTransaction code userId duration now db =
     (case selectForLock db code userId of
        [] \<Rightarrow> Inl NotFoundException
      | (c, a) # _ \<Rightarrow>
          if \<not> isValidStatusForRedemption (c_status c) then Inl BusinessException
          else
            let expiresAt = now + duration * 1000 in
            case managerUpdateCouponStatus db (c_id c) LOCKED now of
              Inl e \<Rightarrow> Inl e
            | Inr db1 \<Rightarrow>
                Inr (expiresAt, updateAssignmentLock db1 (c_id c) userId (Some now) (Some expiresAt)))"

definition unlockCouponInTransaction ::
  "string \<Rightarrow> string \<Rightarrow> int \<Rightarrow> Database \<Rightarrow> error + (unit \<times> Database)" where
  "unlockCouponInTransaction code userId now db =
     (case selectForLock db code userId of
        [] \<Rightarrow> Inl NotFoundException
      | (c, a) # _ \<Rightarrow>
          if c_status c \<noteq> LOCKED then Inl BusinessException
          else
            (case managerUpdateCouponStatus db (c_id c) ASSIGNED now of
               Inl e \<Rightarrow> Inl e
             | Inr db1 \<Rightarrow> Inr ((), updateAssignmentLock db1 (c_id c) userId None None)))"

definition acquireLockLock :: "string \<Rightarrow> int \<Rightarrow> int \<Rightarrow> Cache \<Rightarrow> error + Cache" where
  "acquireLockLock normalizedCode lockDurationSeconds now cache =
     (case acquireLock COUPON_LOCK normalizedCode lockDurationSeconds now cache of
        Inl e \<Rightarrow> Inl e
      | Inr (redisLockAcquired, cache') \<Rightarrow>
          if \<not> redisLockAcquired then Inl ConflictException else Inr cache')"

definition releaseLockLock :: "string \<Rightarrow> Cache \<Rightarrow> error + Cache" where
  "releaseLockLock normalizedCode cache = releaseLock COUPON_LOCK normalizedCode cache"

record LockResponse =
  lr_couponCode :: string
  lr_locked :: bool
  lr_lockExpiresAt :: int
  lr_lockDurationSeconds :: int

definition lockCoupon ::
  "string \<Rightarrow> string \<Rightarrow> int \<Rightarrow> int \<Rightarrow> Cache \<times> Database \<Rightarrow>
     (error + LockResponse) \<times> Cache \<times> Database" where
  "lockCoupon code userId lockDurationSeconds now s =
     (case s of (cache, db) \<Rightarrow>
        case acquireLockLock code lockDurationSeconds now cache of
          Inl e \<Rightarrow> (Inl e, cache, db)
        | Inr cache1 \<Rightarrow>
            (case transaction (lockCouponInTransaction code userId lockDurationSeconds now) db of
               (r, db') \<Rightarrow>
                 (case releaseLockLock code cache1 of
                    Inl e \<Rightarrow> (Inl e, cache1, db')
                  | Inr cache2 \<Rightarrow>
                      (case r of
                         Inl e \<Rightarrow> (Inl e, cache2, db')
                       | Inr lockExpiry \<Rightarrow>
                           (Inr \<lparr>lr_couponCode = code, lr_locked = True,
                                 lr_lockExpiresAt = lockExpiry,
                                 lr_lockDurationSeconds = lockDurationSeconds\<rparr>,
                            cache2, db')))))"

record UnlockResponse =
  ur_unlocked :: bool
  ur_couponCode :: string

definition unlockCoupon ::
  "string \<Rightarrow> string \<Rightarrow> int \<Rightarrow> Database \<Rightarrow> (error + UnlockResponse) \<times> Database" where
  "unlockCoupon code userId now db =
     (case transaction (unlockCouponInTransaction code userId now) db of
        (Inl e, db') \<Rightarrow> (Inl e, db')
      | (Inr _, db') \<Rightarrow> (Inr \<lparr>ur_unlocked = True, ur_couponCode = code\<rparr>, db'))"

section \<open>The five operations as one step function\<close>

datatype Operation =
    AssignRandom nat string nat
  | AssignSpecific string string
  | Lock string string int
  | Unlock string string
  | Redeem string string "Metadata option"

text \<open>The state after an operation issued at time \<open>now\<close>, whether it succeeds or fails.\<close>

fun perform :: "Operation \<Rightarrow> int \<Rightarrow> Cache \<times> Database \<Rightarrow> Cache \<times> Database" where
  "perform (AssignRandom couponBookId userId rnd) now (cache, db) =
     (cache, snd (assignRandomCoupon couponBookId userId rnd now db))"
| "perform (AssignSpecific code userId) now (cache, db) =
     (cache, snd (assignSpecificCoupon code userId now db))"
| "perform (Lock code userId duration) now (cache, db) =
     snd (lockCoupon code userId duration now (cache, db))"
| "perform (Unlock code userId) now (cache, db) =
     (cache, snd (unlockCoupon code userId now db))"
| "perform (Redeem code userId metadata) now (cache, db) =
     snd (redeemCoupon code userId metadata now (cache, db))"

section \<open>Creation of coupons\<close>

text \<open>
  The INSERT of \<open>batchInsertCodes\<close>: one row per code of the batch, skipping codes
  that exist (\<open>ON CONFLICT (code) DO NOTHING\<close>), returning the ids inserted. The
  statement names \<open>coupon_book_id\<close>, \<open>code\<close> and \<open>status\<close>; \<open>version\<close> takes the
  default of its column, which the entity declares as 1. The range of the
  counter \<open>total_codes\<close>, which the last statement of \<open>batchInsertCodes\<close>
  adds to, is left out: it decides whether rows are added, not what they hold.
\<close>

fun insertCoupons :: "Database \<Rightarrow> nat \<Rightarrow> CouponStatus \<Rightarrow> string list \<Rightarrow> int \<Rightarrow> nat list \<times> Database" where
  "insertCoupons db bookId status [] now = ([], db)"
| "insertCoupons db bookId status (code # codes) now =
     (if list_ex (\<lambda>c. c_code c = code) (coupons db)
      then insertCoupons db bookId status codes now
      else
        let row = \<lparr>c_id = freshId (map c_id (coupons db)),
                   c_couponBookId = bookId,
                   c_code = code,
                   c_status = status,
                   c_version = 1,
                   c_updatedAt = now\<rparr>
        in case insertCoupons (db\<lparr>coupons := coupons db @ [row]\<rparr>) bookId status codes now of
             (ids, db') \<Rightarrow> (c_id row # ids, db'))"

definition BATCH_SIZE :: nat where
  "BATCH_SIZE = 5000"

function batchLoop ::
  "nat \<Rightarrow> string list \<Rightarrow> nat \<Rightarrow> int \<Rightarrow> nat \<times> nat \<times> Database \<Rightarrow> nat \<times> nat \<times> Database" where
  "batchLoop i codes bookId now (uploadedCount, duplicateCount, db) =
     (if i < length codes then
        let batch = take BATCH_SIZE (drop i codes) in
        case insertCoupons db bookId AVAILABLE batch now of
          (result, db') \<Rightarrow>
            batchLoop (i + BATCH_SIZE) codes bookId now
              (uploadedCount + length result,
               duplicateCount + (length batch - length result), db')
      else (uploadedCount, duplicateCount, db))"
  by pat_completeness auto
termination
  by (relation "measure (\<lambda>(i, codes, bookId, now, s). length codes - i)")
     (auto simp: BATCH_SIZE_def)

declare batchLoop.simps [simp del]

definition batchInsertCodes :: "nat \<Rightarrow> string list \<Rightarrow> int \<Rightarrow> Database \<Rightarrow> (nat \<times> nat) \<times> Database" where
  "batchInsertCodes bookId codes now db =
     (case batchLoop 0 codes bookId now (0, 0, db) of
        (uploadedCount, duplicateCount, db') \<Rightarrow>
          ((uploadedCount, duplicateCount),
           db'\<lparr>coupon_books :=
                 map (\<lambda>b. if b_id b = bookId
                           then b\<lparr>b_totalCodes := b_totalCodes b + int uploadedCount\<rparr>
                           else b)
                     (coupon_books db')\<rparr>))"

section \<open>Properties of rows and a sample state\<close>

text \<open>
  How a coupon row may differ after an operation: it is the same coupon, its
  version has not gone down, any change to the row has added one to the
  version, and so the version has gone up if the status differs.
\<close>

definition version_step :: "Coupon \<Rightarrow> Coupon \<Rightarrow> bool" where
  "version_step c c' \<longleftrightarrow>
     c_id c' = c_id c \<and> c_code c' = c_code c \<and> c_version c \<le> c_version c' \<and>
     (c' \<noteq> c \<longrightarrow> c_version c' = c_version c + 1) \<and>
     (c_status c' \<noteq> c_status c \<longrightarrow> c_version c < c_version c')"

text \<open>The value stored under a key in the metadata of an assignment row.\<close>

definition storedMetadata :: "Database \<Rightarrow> nat \<Rightarrow> string \<Rightarrow> string option" where
  "storedMetadata db assignmentId key =
     (case findAssignment db assignmentId of
        None \<Rightarrow> None
      | Some a \<Rightarrow> (case a_metadata a of None \<Rightarrow> None | Some m \<Rightarrow> m key))"

text \<open>
  A book that allows two redemptions per user, with the coupon SAVE20 assigned
  to user u1, whose assignment already carries an order id; and an empty cache.
\<close>

definition sample_book :: CouponBook where
  "sample_book =
     \<lparr>b_id = 1, b_isActive = True, b_validFrom = 0, b_validUntil = 1000000,
      b_maxRedemptionsPerUser = Some 2, b_maxAssignmentsPerUser = None, b_totalCodes = 1\<rparr>"

definition sample_coupon :: Coupon where
  "sample_coupon =
     \<lparr>c_id = 1, c_couponBookId = 1, c_code = ''SAVE20'', c_status = ASSIGNED,
      c_version = 2, c_updatedAt = 100\<rparr>"

definition sample_assignment :: CouponAssignment where
  "sample_assignment =
     \<lparr>a_id = 1, a_couponId = 1, a_userId = ''u1'', a_assignedAt = 100,
      a_lockedAt = None, a_lockExpiresAt = None, a_redeemedAt = None,
      a_redemptionCount = 0, a_metadata = Some [''orderId'' \<mapsto> ''o-1'']\<rparr>"

definition sample_db :: Database where
  "sample_db =
     \<lparr>coupon_books = [sample_book], coupons = [sample_coupon],
      coupon_assignments = [sample_assignment]\<rparr>"

text \<open>The sample state once the user has used both redemptions.\<close>

definition full_db :: Database where
  "full_db = sample_db\<lparr>coupon_assignments := [sample_assignment\<lparr>a_redemptionCount := 2\<rparr>]\<rparr>"

text \<open>
  The sample state with an unlimited book and the count at the top of the range
  of its column.
\<close>

definition unlimited_book :: CouponBook where
  "unlimited_book = sample_book\<lparr>b_maxRedemptionsPerUser := None\<rparr>"

definition counted_assignment :: CouponAssignment where
  "counted_assignment = sample_assignment\<lparr>a_redemptionCount := 2147483647\<rparr>"

definition unlimited_db :: Database where
  "unlimited_db =
     \<lparr>coupon_books = [unlimited_book], coupons = [sample_coupon],
      coupon_assignments = [counted_assignment]\<rparr>"

text \<open>
  The sample state after another writer has moved the coupon from version 2 to
  version 3.
\<close>

definition stale_db :: Database where
  "stale_db = sample_db\<lparr>coupons := [sample_coupon\<lparr>c_version := 3\<rparr>]\<rparr>"

text \<open>The row that inserting the code NEW001 into the sample book creates.\<close>

definition new_coupon :: Coupon where
  "new_coupon = \<lparr>c_id = 2, c_couponBookId = 1, c_code = ''NEW001'', c_status = AVAILABLE,
      c_version = 1, c_updatedAt = 1000\<rparr>"

definition sample_metadata :: Metadata where
  "sample_metadata = [''amount'' \<mapsto> ''5'']"

definition empty_cache :: Cache where
  "empty_cache = \<lparr>dedup = Map.empty, locks = Map.empty\<rparr>"

section \<open>Lookups by primary key after an update\<close>

lemma find_map_key:
  assumes "distinct (map k xs)" and "x \<in> set xs" and "\<And>y. k (f y) = k y"
  shows "find (\<lambda>y. k y = k x) (map f xs) = Some (f x)"
  using assms(1,2)
proof (induction xs)
  case Nil
  then show ?case by simp
next
  case (Cons y ys)
  show ?case
  proof (cases "y = x")
    case True
    then show ?thesis by (simp add: assms(3))
  next
    case False
    with Cons.prems have xin: "x \<in> set ys" and "k y \<notin> k ` set ys" by auto
    then have "k y \<noteq> k x" by auto
    with Cons.IH Cons.prems xin show ?thesis by (simp add: assms(3))
  qed
qed

lemma selectForRedeem_mem:
  assumes "(c, cb, a) \<in> set (selectForRedeem db code userId)"
  shows "c \<in> set (coupons db) \<and> cb \<in> set (coupon_books db) \<and> a \<in> set (coupon_assignments db)
         \<and> c_code c = code \<and> c_couponBookId c = b_id cb \<and> a_couponId a = c_id c \<and> a_userId a = userId"
  using assms by (auto simp: selectForRedeem_def)

lemma updateCouponIfVersion_hit:
  assumes d: "distinct (map c_id (coupons db))" and c: "c \<in> set (coupons db)"
      and r: "int4 (c_version c + 1)"
  shows "\<exists>rows n db1.
           updateCouponIfVersion db (c_id c) st (c_version c) now = Inr (RowsAffected rows n, db1)
           \<and> findCoupon db1 (c_id c)
               = Some (c\<lparr>c_status := st, c_version := c_version c + 1, c_updatedAt := now\<rparr>)
           \<and> coupon_assignments db1 = coupon_assignments db"
proof -
  let ?f = "\<lambda>x. if c_id x = c_id c \<and> c_version x = c_version c
                 then x\<lparr>c_status := st, c_version := c_version x + 1, c_updatedAt := now\<rparr>
                 else x"
  have safe: "\<not> list_ex (\<lambda>x. \<not> int4 (c_version x + 1))
                  (filter (\<lambda>x. c_id x = c_id c \<and> c_version x = c_version c) (coupons db))"
    using r by (auto simp: list_ex_iff)
  have "find (\<lambda>y. c_id y = c_id c) (map ?f (coupons db)) = Some (?f c)"
    by (rule find_map_key[OF d c]) simp
  then show ?thesis
    using safe by (simp add: updateCouponIfVersion_def findCoupon_def Let_def)
qed

lemma updateCouponIfVersion_overflow:
  assumes "c \<in> set (coupons db)" and "\<not> int4 (c_version c + 1)"
  shows "updateCouponIfVersion db (c_id c) st (c_version c) now = Inl QueryFailedError"
  using assms by (auto simp: updateCouponIfVersion_def Let_def list_ex_iff)

lemma updateCouponIfVersion_miss:
  assumes "\<forall>x \<in> set (coupons db). \<not> (c_id x = cid \<and> c_version x = v)"
  shows "updateCouponIfVersion db cid st v now = Inr (RowsAffected [] 0, db)"
proof -
  have "map (\<lambda>c. if c_id c = cid \<and> c_version c = v
                   then c\<lparr>c_status := st, c_version := c_version c + 1, c_updatedAt := now\<rparr>
                   else c) (coupons db) = map (\<lambda>c. c) (coupons db)"
    using assms by (intro map_cong) auto
  moreover have "filter (\<lambda>c. c_id c = cid \<and> c_version c = v) (coupons db) = []"
    using assms by (auto simp: filter_empty_conv)
  ultimately show ?thesis by (simp add: updateCouponIfVersion_def)
qed

lemma updateAssignmentRedeemed_find:
  assumes "distinct (map a_id (coupon_assignments db))" and "a \<in> set (coupon_assignments db)"
      and "updateAssignmentRedeemed db (a_id a) n md now = Inr db'"
  shows "findAssignment db' (a_id a)
         = Some (a\<lparr>a_redemptionCount := n, a_redeemedAt := Some now, a_lockedAt := None,
                    a_lockExpiresAt := None,
                    a_metadata := Some (case md of None \<Rightarrow> Map.empty | Some m \<Rightarrow> m)\<rparr>)"
proof -
  let ?f = "\<lambda>x. if a_id x = a_id a
                 then x\<lparr>a_redemptionCount := n,
                        a_redeemedAt := Some now,
                        a_lockedAt := None,
                        a_lockExpiresAt := None,
                        a_metadata := Some (case md of None \<Rightarrow> Map.empty | Some m \<Rightarrow> m)\<rparr>
                 else x"
  have "find (\<lambda>y. a_id y = a_id a) (map ?f (coupon_assignments db)) = Some (?f a)"
    by (rule find_map_key[OF assms(1,2)]) simp
  then show ?thesis
    using assms(3) by (auto simp: updateAssignmentRedeemed_def findAssignment_def split: if_splits)
qed

lemma updateAssignmentRedeemed_coupons:
  "updateAssignmentRedeemed db aid n md now = Inr db' \<Longrightarrow> coupons db' = coupons db"
  by (auto simp: updateAssignmentRedeemed_def split: if_splits)

section \<open>Redemption: limit, count and status\<close>

lemmas sample_defs =
  sample_db_def sample_book_def sample_coupon_def sample_assignment_def empty_cache_def

lemma sample_primary_keys: "primary_keys sample_db"
  by (simp add: primary_keys_def sample_defs)

lemma sample_select:
  "selectForRedeem sample_db ''SAVE20'' ''u1'' = [(sample_coupon, sample_book, sample_assignment)]"
  by (simp add: selectForRedeem_def sample_defs)

lemma redeem_reads:
  assumes sel: "selectForRedeem db code userId = (c, cb, a) # rest"
      and st: "c_status c = ASSIGNED \<or> c_status c = LOCKED"
  shows "redeemCouponInTransaction code userId md now db =
          (if (case b_maxRedemptionsPerUser cb of None \<Rightarrow> False
               | Some m \<Rightarrow> a_redemptionCount a + 1 > m)
           then Inl BusinessException
           else redeemWrites db (c_id c)
                  (if b_maxRedemptionsPerUser cb = Some (a_redemptionCount a + 1)
                   then REDEEMED else ASSIGNED)
                  (c_version c) (a_id a) (a_redemptionCount a + 1)
                  (b_maxRedemptionsPerUser cb)
                  (b_maxRedemptionsPerUser cb = Some (a_redemptionCount a + 1)) md now)"
  using st
  by (cases "b_maxRedemptionsPerUser cb")
     (auto simp: redeemCouponInTransaction_def sel isValidStatusForRedemption_def
        isFullyRedeemed_def getStatusAfterRedemption_def Let_def)

lemma redeemWrites_guard:
  assumes "\<forall>x \<in> set (coupons db2). \<not> (c_id x = cid \<and> c_version x = v)"
      and "redeemWrites db2 cid st v aid n mx fl md now = Inr (r, db3)"
  shows "coupons db3 = coupons db2"
  using assms(2)
  by (auto simp: redeemWrites_def updateCouponIfVersion_miss[OF assms(1)]
           dest: updateAssignmentRedeemed_coupons split: sum.splits)

lemma redeemWrites_overflow:
  assumes c: "c \<in> set (coupons db)"
      and "\<not> int4 (c_version c + 1) \<or> \<not> int4 n"
  shows "redeemWrites db (c_id c) st (c_version c) aid n mx fl md now = Inl QueryFailedError"
proof (cases "int4 (c_version c + 1)")
  case False
  then show ?thesis by (simp add: redeemWrites_def updateCouponIfVersion_overflow[OF c])
next
  case True
  with assms(2) have n: "\<not> int4 n" by simp
  have "updateCouponIfVersion db (c_id c) st (c_version c) now = Inl QueryFailedError
        \<or> (\<exists>rows k db1. updateCouponIfVersion db (c_id c) st (c_version c) now
                           = Inr (RowsAffected rows k, db1))"
    by (auto simp: updateCouponIfVersion_def Let_def)
  then show ?thesis
    using n by (auto simp: redeemWrites_def updateAssignmentRedeemed_def)
qed

lemma redeemWrites_ok:
  assumes pk: "primary_keys db" and c: "c \<in> set (coupons db)" and a: "a \<in> set (coupon_assignments db)"
      and rv: "int4 (c_version c + 1)" and rn: "int4 n"
  shows "\<exists>db'. redeemWrites db (c_id c) st (c_version c) (a_id a) n mx fl md now
               = Inr (\<lparr>r_newCount = n, r_maxRedemptions = mx, r_isFullyRedeemed = fl\<rparr>, db')
          \<and> findCoupon db' (c_id c)
              = Some (c\<lparr>c_status := st, c_version := c_version c + 1, c_updatedAt := now\<rparr>)
          \<and> findAssignment db' (a_id a)
              = Some (a\<lparr>a_redemptionCount := n, a_redeemedAt := Some now, a_lockedAt := None,
                    a_lockExpiresAt := None,
                    a_metadata := Some (case md of None \<Rightarrow> Map.empty | Some m \<Rightarrow> m)\<rparr>)"
proof -
  from pk have dc: "distinct (map c_id (coupons db))" and da: "distinct (map a_id (coupon_assignments db))"
    by (simp_all add: primary_keys_def)
  from updateCouponIfVersion_hit[OF dc c rv, of st now]
  obtain rows k db1
    where u: "updateCouponIfVersion db (c_id c) st (c_version c) now = Inr (RowsAffected rows k, db1)"
      and fc: "findCoupon db1 (c_id c)
                = Some (c\<lparr>c_status := st, c_version := c_version c + 1, c_updatedAt := now\<rparr>)"
      and as1: "coupon_assignments db1 = coupon_assignments db"
    by blast
  obtain db2 where w: "updateAssignmentRedeemed db1 (a_id a) n md now = Inr db2"
    using rn by (simp add: updateAssignmentRedeemed_def)
  have fa: "findAssignment db2 (a_id a)
      = Some (a\<lparr>a_redemptionCount := n, a_redeemedAt := Some now, a_lockedAt := None,
                    a_lockExpiresAt := None,
                    a_metadata := Some (case md of None \<Rightarrow> Map.empty | Some m \<Rightarrow> m)\<rparr>)"
    by (rule updateAssignmentRedeemed_find[OF _ _ w]) (simp_all add: as1 da a)
  have "coupons db2 = coupons db1" by (rule updateAssignmentRedeemed_coupons[OF w])
  then have fc': "findCoupon db2 (c_id c) = findCoupon db1 (c_id c)"
    by (simp add: findCoupon_def)
  show ?thesis
    using fa fc fc' by (simp add: redeemWrites_def u w)
qed

text \<open>
  Claim C1, as amended. Take a redemption whose SELECT returns a row (coupon,
  book and the user's assignment) with the coupon ASSIGNED or LOCKED, on tables
  with unique primary keys. If the book has a limit and the count plus one
  exceeds it, the transaction fails with a business error and leaves the
  database as it was. Otherwise, if the count plus one and the version plus one
  are in the range of their columns, it succeeds, the assignment's count is the
  old count plus one, and the coupon is REDEEMED exactly when the limit is set
  and equals the new count, ASSIGNED otherwise; if one of them is out of range,
  the transaction fails with the error of the database and leaves the database
  as it was. The coupon is written by \<open>redeemWrites\<close> with the version that the
  SELECT read: on any table contents in which no coupon row has that id and that
  version, these writes leave the coupons table as it is.
\<close>

theorem redeem_count_and_status:
  assumes pk: "primary_keys db"
      and sel: "selectForRedeem db code userId = (c, cb, a) # rest"
      and st: "c_status c = ASSIGNED \<or> c_status c = LOCKED"
  shows "(if (case b_maxRedemptionsPerUser cb of None \<Rightarrow> False
              | Some m \<Rightarrow> a_redemptionCount a + 1 > m)
          then transaction (redeemCouponInTransaction code userId md now) db
                 = (Inl BusinessException, db)
          else (if int4 (a_redemptionCount a + 1) \<and> int4 (c_version c + 1)
                then (\<exists>res db'.
                        transaction (redeemCouponInTransaction code userId md now) db = (Inr res, db')
                        \<and> map_option a_redemptionCount (findAssignment db' (a_id a))
                            = Some (a_redemptionCount a + 1)
                        \<and> map_option c_status (findCoupon db' (c_id c))
                            = Some (if b_maxRedemptionsPerUser cb = Some (a_redemptionCount a + 1)
                                    then REDEEMED else ASSIGNED))
                else transaction (redeemCouponInTransaction code userId md now) db
                       = (Inl QueryFailedError, db))
               \<and> (\<forall>db2 r db3.
                      (\<forall>x \<in> set (coupons db2). \<not> (c_id x = c_id c \<and> c_version x = c_version c))
                      \<and> redeemWrites db2 (c_id c)
                           (if b_maxRedemptionsPerUser cb = Some (a_redemptionCount a + 1)
                            then REDEEMED else ASSIGNED)
                           (c_version c) (a_id a) (a_redemptionCount a + 1)
                           (b_maxRedemptionsPerUser cb)
                           (b_maxRedemptionsPerUser cb = Some (a_redemptionCount a + 1)) md now
                          = Inr (r, db3)
                      \<longrightarrow> coupons db3 = coupons db2)
               \<and> redeemCouponInTransaction code userId md now db
                   = redeemWrites db (c_id c)
                       (if b_maxRedemptionsPerUser cb = Some (a_redemptionCount a + 1)
                        then REDEEMED else ASSIGNED)
                       (c_version c) (a_id a) (a_redemptionCount a + 1)
                       (b_maxRedemptionsPerUser cb)
                       (b_maxRedemptionsPerUser cb = Some (a_redemptionCount a + 1)) md now)"
proof -
  have "(c, cb, a) \<in> set (selectForRedeem db code userId)" by (simp add: sel)
  then have c: "c \<in> set (coupons db)" and a: "a \<in> set (coupon_assignments db)"
    using selectForRedeem_mem by blast+
  note rd = redeem_reads[OF sel st, of md now]
  let ?st = "if b_maxRedemptionsPerUser cb = Some (a_redemptionCount a + 1)
             then REDEEMED else ASSIGNED"
  let ?fl = "b_maxRedemptionsPerUser cb = Some (a_redemptionCount a + 1)"
  let ?n = "a_redemptionCount a + 1"
  show ?thesis
  proof (cases "(case b_maxRedemptionsPerUser cb of None \<Rightarrow> False
              | Some m \<Rightarrow> a_redemptionCount a + 1 > m)")
    case True
    then show ?thesis using rd by (simp add: transaction_def)
  next
    case False
    have 3: "redeemCouponInTransaction code userId md now db
               = redeemWrites db (c_id c) ?st (c_version c) (a_id a) ?n
                   (b_maxRedemptionsPerUser cb) ?fl md now"
      using False rd by simp
    have 2: "\<forall>db2 r db3.
               (\<forall>x \<in> set (coupons db2). \<not> (c_id x = c_id c \<and> c_version x = c_version c))
               \<and> redeemWrites db2 (c_id c) ?st (c_version c) (a_id a) ?n
                    (b_maxRedemptionsPerUser cb) ?fl md now = Inr (r, db3)
               \<longrightarrow> coupons db3 = coupons db2"
      using redeemWrites_guard by blast
    have 1: "if int4 ?n \<and> int4 (c_version c + 1)
             then (\<exists>res db'.
                     transaction (redeemCouponInTransaction code userId md now) db = (Inr res, db')
                     \<and> map_option a_redemptionCount (findAssignment db' (a_id a)) = Some ?n
                     \<and> map_option c_status (findCoupon db' (c_id c)) = Some ?st)
             else transaction (redeemCouponInTransaction code userId md now) db
                    = (Inl QueryFailedError, db)"
    proof (cases "int4 ?n \<and> int4 (c_version c + 1)")
      case True
      then have rv: "int4 (c_version c + 1)" and rn: "int4 ?n" by simp_all
      from redeemWrites_ok[OF pk c a rv rn, of ?st "b_maxRedemptionsPerUser cb" ?fl md now]
      obtain db' where w: "redeemWrites db (c_id c) ?st (c_version c) (a_id a) ?n
             (b_maxRedemptionsPerUser cb) ?fl md now
             = Inr (\<lparr>r_newCount = ?n, r_maxRedemptions = b_maxRedemptionsPerUser cb,
                     r_isFullyRedeemed = ?fl\<rparr>, db')"
        and fc: "findCoupon db' (c_id c)
                  = Some (c\<lparr>c_status := ?st, c_version := c_version c + 1, c_updatedAt := now\<rparr>)"
        and fa: "findAssignment db' (a_id a)
                  = Some (a\<lparr>a_redemptionCount := ?n, a_redeemedAt := Some now, a_lockedAt := None,
                        a_lockExpiresAt := None,
                        a_metadata := Some (case md of None \<Rightarrow> Map.empty | Some m \<Rightarrow> m)\<rparr>)"
        by blast
      have "\<exists>res db'.
              transaction (redeemCouponInTransaction code userId md now) db = (Inr res, db')
              \<and> map_option a_redemptionCount (findAssignment db' (a_id a)) = Some ?n
              \<and> map_option c_status (findCoupon db' (c_id c)) = Some ?st"
        using 3 w fc fa by (simp add: transaction_def)
      with True show ?thesis by simp
    next
      case out: False
      then have "\<not> int4 (c_version c + 1) \<or> \<not> int4 ?n" by blast
      from redeemWrites_overflow[OF c this] 3
      have "transaction (redeemCouponInTransaction code userId md now) db
              = (Inl QueryFailedError, db)"
        by (simp add: transaction_def)
      with out show ?thesis by simp
    qed
    show ?thesis unfolding if_not_P[OF False] by (intro conjI 1 2 3)
  qed
qed

lemma full_primary_keys: "primary_keys full_db"
  by (simp add: primary_keys_def full_db_def sample_defs)

lemma full_select:
  "selectForRedeem full_db ''SAVE20'' ''u1''
     = [(sample_coupon, sample_book, sample_assignment\<lparr>a_redemptionCount := 2\<rparr>)]"
  by (simp add: selectForRedeem_def full_db_def sample_defs)

lemma stale_update:
  "updateCouponIfVersion stale_db 1 ASSIGNED 2 1000 = Inr (RowsAffected [] 0, stale_db)"
  by (simp add: updateCouponIfVersion_def stale_db_def sample_db_def sample_coupon_def)

lemma stale_assignment:
  "updateAssignmentRedeemed stale_db 1 1 (Some sample_metadata) 1000
     = Inr (stale_db\<lparr>coupon_assignments :=
              [sample_assignment\<lparr>a_redemptionCount := 1, a_redeemedAt := Some 1000,
                 a_lockedAt := None, a_lockExpiresAt := None,
                 a_metadata := Some sample_metadata\<rparr>]\<rparr>)"
  by (simp add: updateAssignmentRedeemed_def int4_def stale_db_def sample_db_def
        sample_assignment_def)

lemma stale_writes:
  "redeemWrites stale_db 1 ASSIGNED 2 1 1 (Some 2) False (Some sample_metadata) 1000
     = Inr (\<lparr>r_newCount = 1, r_maxRedemptions = Some 2, r_isFullyRedeemed = False\<rparr>,
            stale_db\<lparr>coupon_assignments :=
              [sample_assignment\<lparr>a_redemptionCount := 1, a_redeemedAt := Some 1000,
                 a_lockedAt := None, a_lockExpiresAt := None,
                 a_metadata := Some sample_metadata\<rparr>]\<rparr>)"
  by (simp add: redeemWrites_def stale_update stale_assignment del: One_nat_def)

theorem redeem_count_and_status_witness:
  "primary_keys sample_db
   \<and> selectForRedeem sample_db ''SAVE20'' ''u1'' = [(sample_coupon, sample_book, sample_assignment)]
   \<and> c_status sample_coupon = ASSIGNED
   \<and> (\<exists>res db'.
         transaction (redeemCouponInTransaction ''SAVE20'' ''u1'' (Some sample_metadata) 1000) sample_db
           = (Inr res, db')
         \<and> map_option a_redemptionCount (findAssignment db' 1) = Some 1
         \<and> map_option c_status (findCoupon db' 1) = Some ASSIGNED)
   \<and> coupons stale_db = [sample_coupon\<lparr>c_version := 3\<rparr>]
   \<and> coupons (snd (projr (redeemWrites stale_db 1 ASSIGNED 2 1 1 (Some 2) False
                              (Some sample_metadata) 1000)))
       = coupons stale_db
   \<and> primary_keys full_db
   \<and> selectForRedeem full_db ''SAVE20'' ''u1''
       = [(sample_coupon, sample_book, sample_assignment\<lparr>a_redemptionCount := 2\<rparr>)]
   \<and> transaction (redeemCouponInTransaction ''SAVE20'' ''u1'' None 1000) full_db
       = (Inl BusinessException, full_db)"
proof -
  have st: "c_status sample_coupon = ASSIGNED \<or> c_status sample_coupon = LOCKED"
    by (simp add: sample_coupon_def)
  have shape: "c_id sample_coupon = 1 \<and> c_version sample_coupon = 2 \<and> a_id sample_assignment = 1
      \<and> a_redemptionCount sample_assignment = 0 \<and> b_maxRedemptionsPerUser sample_book = Some 2"
    by (simp add: sample_book_def sample_coupon_def sample_assignment_def)
  have lim: "\<not> (case b_maxRedemptionsPerUser sample_book of None \<Rightarrow> False
                 | Some m \<Rightarrow> a_redemptionCount sample_assignment + 1 > m)"
    by (simp add: shape)
  have rng: "int4 (a_redemptionCount sample_assignment + 1) \<and> int4 (c_version sample_coupon + 1)"
    by (simp add: shape int4_def)
  note inst = redeem_count_and_status
    [OF sample_primary_keys sample_select st, of "Some sample_metadata" 1000]
  from inst have parts:
    "(if int4 (a_redemptionCount sample_assignment + 1) \<and> int4 (c_version sample_coupon + 1)
      then (\<exists>res db'.
              transaction (redeemCouponInTransaction ''SAVE20'' ''u1'' (Some sample_metadata) 1000)
                sample_db = (Inr res, db')
              \<and> map_option a_redemptionCount (findAssignment db' (a_id sample_assignment))
                  = Some (a_redemptionCount sample_assignment + 1)
              \<and> map_option c_status (findCoupon db' (c_id sample_coupon))
                  = Some (if b_maxRedemptionsPerUser sample_book
                             = Some (a_redemptionCount sample_assignment + 1)
                          then REDEEMED else ASSIGNED))
      else transaction (redeemCouponInTransaction ''SAVE20'' ''u1'' (Some sample_metadata) 1000)
             sample_db = (Inl QueryFailedError, sample_db))
     \<and> (\<forall>db2 r db3.
           (\<forall>x \<in> set (coupons db2).
               \<not> (c_id x = c_id sample_coupon \<and> c_version x = c_version sample_coupon))
           \<and> redeemWrites db2 (c_id sample_coupon)
                (if b_maxRedemptionsPerUser sample_book
                      = Some (a_redemptionCount sample_assignment + 1)
                 then REDEEMED else ASSIGNED)
                (c_version sample_coupon) (a_id sample_assignment)
                (a_redemptionCount sample_assignment + 1)
                (b_maxRedemptionsPerUser sample_book)
                (b_maxRedemptionsPerUser sample_book
                   = Some (a_redemptionCount sample_assignment + 1))
                (Some sample_metadata) 1000
               = Inr (r, db3)
           \<longrightarrow> coupons db3 = coupons db2)"
    unfolding if_not_P[OF lim] by blast
  from parts have "\<exists>res db'.
         transaction (redeemCouponInTransaction ''SAVE20'' ''u1'' (Some sample_metadata) 1000)
           sample_db = (Inr res, db')
         \<and> map_option a_redemptionCount (findAssignment db' (a_id sample_assignment))
             = Some (a_redemptionCount sample_assignment + 1)
         \<and> map_option c_status (findCoupon db' (c_id sample_coupon))
             = Some (if b_maxRedemptionsPerUser sample_book
                        = Some (a_redemptionCount sample_assignment + 1)
                     then REDEEMED else ASSIGNED)"
    unfolding if_P[OF rng] by (rule conjunct1)
  then have ok: "\<exists>res db'.
         transaction (redeemCouponInTransaction ''SAVE20'' ''u1'' (Some sample_metadata) 1000)
           sample_db = (Inr res, db')
         \<and> map_option a_redemptionCount (findAssignment db' 1) = Some 1
         \<and> map_option c_status (findCoupon db' 1) = Some ASSIGNED"
    by (simp add: shape del: One_nat_def)
  have cs: "coupons stale_db = [sample_coupon\<lparr>c_version := 3\<rparr>]"
    by (simp add: stale_db_def)
  have miss: "\<forall>x \<in> set (coupons stale_db).
                \<not> (c_id x = c_id sample_coupon \<and> c_version x = c_version sample_coupon)"
    by (simp add: cs) (simp add: sample_coupon_def)
  let ?w = "redeemWrites stale_db 1 ASSIGNED 2 1 1 (Some 2) False (Some sample_metadata) 1000"
  have w: "redeemWrites stale_db (c_id sample_coupon)
                (if b_maxRedemptionsPerUser sample_book
                      = Some (a_redemptionCount sample_assignment + 1)
                 then REDEEMED else ASSIGNED)
                (c_version sample_coupon) (a_id sample_assignment)
                (a_redemptionCount sample_assignment + 1)
                (b_maxRedemptionsPerUser sample_book)
                (b_maxRedemptionsPerUser sample_book
                   = Some (a_redemptionCount sample_assignment + 1))
                (Some sample_metadata) 1000
             = Inr (fst (projr ?w), snd (projr ?w))"
    by (simp add: shape stale_writes del: One_nat_def)
  from parts miss w have guard: "coupons (snd (projr ?w)) = coupons stale_db"
    by blast
  have full: "transaction (redeemCouponInTransaction ''SAVE20'' ''u1'' None 1000) full_db
       = (Inl BusinessException, full_db)"
    using redeem_count_and_status [OF full_primary_keys full_select st, of None 1000]
    by (simp add: sample_book_def sample_assignment_def)
  from ok cs guard full show ?thesis
    using sample_primary_keys sample_select full_primary_keys full_select
    by (simp add: sample_coupon_def del: One_nat_def)
qed

text \<open>
  Claim C1 as stated has every redemption under the limit raise the count, and
  has the coupon update fail with a conflict when no row matches. With an
  unlimited book and the count at 2147483647 the redemption fails with the
  error of the database and changes nothing. On the table whose coupon has moved
  on to version 3, the writes made with version 2 find no row, and still return
  a result and write the assignment: what the UPDATE resolves to is never empty.
\<close>

theorem redeem_count_and_status_counterexample:
  "selectForRedeem unlimited_db ''SAVE20'' ''u1''
     = [(sample_coupon, unlimited_book, counted_assignment)]
   \<and> c_status sample_coupon = ASSIGNED
   \<and> b_maxRedemptionsPerUser unlimited_book = None
   \<and> a_redemptionCount counted_assignment = 2147483647
   \<and> transaction (redeemCouponInTransaction ''SAVE20'' ''u1'' None 1000) unlimited_db
       = (Inl QueryFailedError, unlimited_db)
   \<and> coupons stale_db = [sample_coupon\<lparr>c_version := 3\<rparr>]
   \<and> c_version sample_coupon = 2
   \<and> redeemWrites stale_db 1 ASSIGNED 2 1 1 (Some 2) False (Some sample_metadata) 1000
       = Inr (\<lparr>r_newCount = 1, r_maxRedemptions = Some 2, r_isFullyRedeemed = False\<rparr>,
              stale_db\<lparr>coupon_assignments :=
                [sample_assignment\<lparr>a_redemptionCount := 1, a_redeemedAt := Some 1000,
                   a_lockedAt := None, a_lockExpiresAt := None,
                   a_metadata := Some sample_metadata\<rparr>]\<rparr>)"
proof -
  have sel: "selectForRedeem unlimited_db ''SAVE20'' ''u1''
     = [(sample_coupon, unlimited_book, counted_assignment)]"
    by (simp add: selectForRedeem_def unlimited_db_def unlimited_book_def counted_assignment_def
          sample_defs)
  have run: "transaction (redeemCouponInTransaction ''SAVE20'' ''u1'' None 1000) unlimited_db
       = (Inl QueryFailedError, unlimited_db)"
    by (simp add: transaction_def redeemCouponInTransaction_def sel redeemWrites_def
          updateCouponIfVersion_def updateAssignmentRedeemed_def isValidStatusForRedemption_def
          isFullyRedeemed_def getStatusAfterRedemption_def int4_def Let_def)
       (simp add: unlimited_db_def unlimited_book_def counted_assignment_def sample_defs int4_def)
  show ?thesis
    using sel run stale_writes
    by (simp add: stale_db_def unlimited_book_def counted_assignment_def sample_defs)
qed

section \<open>The sample redemption, evaluated\<close>

lemma sample_transaction:
  "transaction (redeemCouponInTransaction ''SAVE20'' ''u1'' md 1000) sample_db =
   (Inr \<lparr>r_newCount = 1, r_maxRedemptions = Some 2, r_isFullyRedeemed = False\<rparr>,
    sample_db\<lparr>coupons := [sample_coupon\<lparr>c_status := ASSIGNED, c_version := 3, c_updatedAt := 1000\<rparr>],
       coupon_assignments := [sample_assignment\<lparr>a_redemptionCount := 1, a_redeemedAt := Some 1000,
           a_lockedAt := None, a_lockExpiresAt := None,
           a_metadata := Some (case md of None \<Rightarrow> Map.empty | Some m \<Rightarrow> m)\<rparr>]\<rparr>)"
  by (simp add: transaction_def redeemCouponInTransaction_def sample_select redeemWrites_def
       updateCouponIfVersion_def updateAssignmentRedeemed_def isValidStatusForRedemption_def
       isFullyRedeemed_def getStatusAfterRedemption_def int4_def Let_def)
     (simp add: sample_defs int4_def)

lemmas redeem_cache_defs =
  redeemCoupon_def checkAndSetRedemptionDedup_def hasDedup_def setDedup_def
  acquireRedemptionLock_def acquireLock_def releaseRedemptionLock_def releaseLock_def
  CacheKeyBuilder_dedup_def CacheKeyBuilder_lock_def

lemmas sample_key_defs =
  CacheKeyBuilder_validate_def COUPON_REDEEM_def buildCouponUserKey_def MAX_KEY_LENGTH_def

lemma sample_redeem:
  "redeemCoupon ''SAVE20'' ''u1'' md 1000 (empty_cache, sample_db) =
    (Inr \<lparr>rr_couponCode = ''SAVE20'', rr_redeemedAt = 1000, rr_redemptionCount = 1,
          rr_redemptionsRemaining = Some 1, rr_fullyRedeemed = False\<rparr>,
     \<lparr>dedup = [''coupon-redeem:SAVE20:u1'' \<mapsto> Some 61000], locks = Map.empty\<rparr>,
     snd (transaction (redeemCouponInTransaction ''SAVE20'' ''u1'' md 1000) sample_db))"
  by (simp add: redeem_cache_defs sample_key_defs redis_exists_def redeemResponse_def
        sample_transaction Let_def empty_cache_def fun_upd_idem)


section \<open>The dedup flag of a redemption\<close>

text \<open>
  With a valid key: the dedup check rejects the call when the flag is visible and
  sets it for 60 seconds otherwise; neither acquiring nor releasing the lock
  touches the dedup bucket, so the flag a call sets is in the cache the call
  returns, whatever the outcome, and a repeat within the 60 seconds is rejected.
\<close>

lemma checkAndSetRedemptionDedup_eq:
  assumes "CacheKeyBuilder_dedup COUPON_REDEEM key = Inr K"
  shows "checkAndSetRedemptionDedup key now cache =
          (if redis_exists (dedup cache) K now then Inl ConflictException
           else Inr (cache\<lparr>dedup := (dedup cache)(K \<mapsto> Some (now + 60000))\<rparr>))"
  by (simp add: checkAndSetRedemptionDedup_def hasDedup_def setDedup_def assms)

lemma acquireRedemptionLock_dedup:
  "acquireRedemptionLock key now cache = Inr cache' \<Longrightarrow> dedup cache' = dedup cache"
  by (auto simp: acquireRedemptionLock_def acquireLock_def split: sum.splits if_splits)

lemma releaseRedemptionLock_dedup:
  "releaseRedemptionLock key cache = Inr cache' \<Longrightarrow> dedup cache' = dedup cache"
  by (auto simp: releaseRedemptionLock_def releaseLock_def split: sum.splits)

lemma redeemCoupon_duplicate:
  assumes "CacheKeyBuilder_dedup COUPON_REDEEM (buildCouponUserKey code userId) = Inr K"
      and "redis_exists (dedup cache) K now"
  shows "redeemCoupon code userId md now (cache, db) = (Inl ConflictException, cache, db)"
  by (simp add: redeemCoupon_def Let_def checkAndSetRedemptionDedup_eq[OF assms(1)] assms(2))

lemma redeemCoupon_sets_dedup:
  assumes k: "CacheKeyBuilder_dedup COUPON_REDEEM (buildCouponUserKey code userId) = Inr K"
      and fresh: "\<not> redis_exists (dedup cache) K now"
  shows "dedup (fst (snd (redeemCoupon code userId md now (cache, db))))
           = (dedup cache)(K \<mapsto> Some (now + 60000))"
proof -
  let ?key = "buildCouponUserKey code userId"
  let ?c1 = "cache\<lparr>dedup := (dedup cache)(K \<mapsto> Some (now + 60000))\<rparr>"
  have d: "checkAndSetRedemptionDedup ?key now cache = Inr ?c1"
    by (simp add: checkAndSetRedemptionDedup_eq[OF k] fresh)
  show ?thesis
  proof (cases "acquireRedemptionLock ?key now ?c1")
    case (Inl e)
    then show ?thesis by (simp add: redeemCoupon_def Let_def d)
  next
    case (Inr c2)
    then have d2: "dedup c2 = dedup ?c1" by (rule acquireRedemptionLock_dedup)
    obtain r db' where t: "transaction (redeemCouponInTransaction code userId md now) db = (r, db')"
      by (cases "transaction (redeemCouponInTransaction code userId md now) db")
    show ?thesis
    proof (cases "releaseRedemptionLock ?key c2")
      case (Inl e)
      then show ?thesis using Inr d2 by (simp add: redeemCoupon_def Let_def d t)
    next
      case rel: (Inr c3)
      then have "dedup c3 = dedup c2" by (rule releaseRedemptionLock_dedup)
      then show ?thesis using Inr rel d2
        by (cases r) (simp_all add: redeemCoupon_def Let_def d t)
    qed
  qed
qed

lemma redeemCoupon_repeat_rejected:
  assumes k: "CacheKeyBuilder_dedup COUPON_REDEEM (buildCouponUserKey code userId) = Inr K"
      and fresh: "\<not> redis_exists (dedup cache) K now"
      and soon: "now' < now + 60000"
  shows "fst (redeemCoupon code userId md' now'
                (snd (redeemCoupon code userId md now (cache, db)))) = Inl ConflictException"
proof -
  obtain r cache' db' where call: "redeemCoupon code userId md now (cache, db) = (r, cache', db')"
    by (cases "redeemCoupon code userId md now (cache, db)")
  from redeemCoupon_sets_dedup[OF k fresh, of md db] call
  have "dedup cache' = (dedup cache)(K \<mapsto> Some (now + 60000))" by simp
  with soon have "redis_exists (dedup cache') K now'" by (simp add: redis_exists_def)
  from redeemCoupon_duplicate[OF k this] call show ?thesis by simp
qed


text \<open>
  Claim C2. The claim has the dedup flag cleared when Redeem exits, so that an
  immediately following Redeem for the same code and user passes the dedup
  layer. Evaluated on the sample state with an empty cache: the first Redeem of
  SAVE20 by u1 succeeds with one redemption remaining; in the cache it returns
  the flag is still set and the lock is released; the same Redeem repeated at the
  same instant fails with a conflict.
\<close>

theorem redeem_leaves_dedup_flag:
  "fst (redeemCoupon ''SAVE20'' ''u1'' None 1000 (empty_cache, sample_db))
     = Inr \<lparr>rr_couponCode = ''SAVE20'', rr_redeemedAt = 1000, rr_redemptionCount = 1,
            rr_redemptionsRemaining = Some 1, rr_fullyRedeemed = False\<rparr>
   \<and> hasDedup COUPON_REDEEM (buildCouponUserKey ''SAVE20'' ''u1'') 1000
        (fst (snd (redeemCoupon ''SAVE20'' ''u1'' None 1000 (empty_cache, sample_db)))) = Inr True
   \<and> locks (fst (snd (redeemCoupon ''SAVE20'' ''u1'' None 1000 (empty_cache, sample_db))))
        ''coupon-redeem:SAVE20:u1'' = None
   \<and> fst (redeemCoupon ''SAVE20'' ''u1'' None 1000
            (snd (redeemCoupon ''SAVE20'' ''u1'' None 1000 (empty_cache, sample_db))))
       = Inl ConflictException"
  unfolding sample_redeem
  by (simp add: redeem_cache_defs sample_key_defs redis_exists_def Let_def)


section \<open>The assignment row after a redemption\<close>

lemma redeemCoupon_success:
  assumes "redeemCoupon code userId md now (cache, db) = (Inr resp, cache', db')"
  shows "\<exists>res. transaction (redeemCouponInTransaction code userId md now) db = (Inr res, db')
               \<and> resp = redeemResponse code now res"
  using assms
  by (auto simp: redeemCoupon_def Let_def split: sum.splits prod.splits)

lemma redeem_success_row:
  assumes sel: "selectForRedeem db code userId = (c, cb, a) # rest"
      and ok: "redeemCouponInTransaction code userId md now db = Inr x"
  shows "(c_status c = ASSIGNED \<or> c_status c = LOCKED)
         \<and> \<not> (case b_maxRedemptionsPerUser cb of None \<Rightarrow> False
                | Some m \<Rightarrow> a_redemptionCount a + 1 > m)"
  using ok
  by (cases "b_maxRedemptionsPerUser cb")
     (auto simp: redeemCouponInTransaction_def sel isValidStatusForRedemption_def Let_def
           split: if_splits)


lemma redeemWrites_success_assignment:
  assumes da: "distinct (map a_id (coupon_assignments db))" and a: "a \<in> set (coupon_assignments db)"
      and w: "redeemWrites db cid st v (a_id a) n mx fl md now = Inr (r, db')"
  shows "findAssignment db' (a_id a)
           = Some (a\<lparr>a_redemptionCount := n, a_redeemedAt := Some now, a_lockedAt := None,
                     a_lockExpiresAt := None,
                     a_metadata := Some (case md of None \<Rightarrow> Map.empty | Some m \<Rightarrow> m)\<rparr>)
         \<and> r_newCount r = n"
proof -
  from w obtain q db1
    where u: "updateCouponIfVersion db cid st v now = Inr (q, db1)"
      and s: "updateAssignmentRedeemed db1 (a_id a) n md now = Inr db'"
      and r: "r = \<lparr>r_newCount = n, r_maxRedemptions = mx, r_isFullyRedeemed = fl\<rparr>"
    by (auto simp: redeemWrites_def split: sum.splits if_splits)
  from u have "coupon_assignments db1 = coupon_assignments db"
    by (auto simp: updateCouponIfVersion_def Let_def split: if_splits)
  with da a have "distinct (map a_id (coupon_assignments db1))" and "a \<in> set (coupon_assignments db1)"
    by simp_all
  from updateAssignmentRedeemed_find[OF this s] r show ?thesis by simp
qed

text \<open>
  Claim C3, as amended. After a successful Redeem whose SELECT returned the row
  (coupon, book, assignment), on tables with unique primary keys, the assignment
  row is the old row with redemptionCount set to the count of the response (the
  old count plus one), redeemedAt set to the current time, lockedAt and
  lockExpiresAt null, and metadata replaced by the supplied metadata, or by the
  empty object when none is supplied.
\<close>

theorem redeem_assignment_row:
  assumes pk: "primary_keys db"
      and sel: "selectForRedeem db code userId = (c, cb, a) # rest"
      and ok: "redeemCoupon code userId md now (cache, db) = (Inr resp, cache', db')"
  shows "findAssignment db' (a_id a)
           = Some (a\<lparr>a_redemptionCount := rr_redemptionCount resp,
                     a_redeemedAt := Some now,
                     a_lockedAt := None,
                     a_lockExpiresAt := None,
                     a_metadata := Some (case md of None \<Rightarrow> Map.empty | Some m \<Rightarrow> m)\<rparr>)
         \<and> rr_redemptionCount resp = a_redemptionCount a + 1"
proof -
  from redeemCoupon_success[OF ok] obtain res
    where t: "transaction (redeemCouponInTransaction code userId md now) db = (Inr res, db')"
      and resp: "resp = redeemResponse code now res" by blast
  from t have run: "redeemCouponInTransaction code userId md now db = Inr (res, db')"
    by (auto simp: transaction_def split: sum.splits prod.splits)
  from redeem_success_row[OF sel run]
  have st: "c_status c = ASSIGNED \<or> c_status c = LOCKED"
    and lim: "\<not> (case b_maxRedemptionsPerUser cb of None \<Rightarrow> False
                | Some m \<Rightarrow> a_redemptionCount a + 1 > m)" by simp_all
  have "(c, cb, a) \<in> set (selectForRedeem db code userId)" by (simp add: sel)
  then have a: "a \<in> set (coupon_assignments db)"
    using selectForRedeem_mem by blast
  from pk have da: "distinct (map a_id (coupon_assignments db))"
    by (simp add: primary_keys_def)
  from redeem_reads[OF sel st, of md now] lim run
  have w: "redeemWrites db (c_id c)
             (if b_maxRedemptionsPerUser cb = Some (a_redemptionCount a + 1)
              then REDEEMED else ASSIGNED)
             (c_version c) (a_id a) (a_redemptionCount a + 1) (b_maxRedemptionsPerUser cb)
             (b_maxRedemptionsPerUser cb = Some (a_redemptionCount a + 1)) md now
           = Inr (res, db')"
    by simp
  from redeemWrites_success_assignment[OF da a w] resp
  show ?thesis by (simp add: redeemResponse_def)
qed

theorem redeem_assignment_row_witness:
  "primary_keys sample_db
   \<and> selectForRedeem sample_db ''SAVE20'' ''u1'' = [(sample_coupon, sample_book, sample_assignment)]
   \<and> fst (redeemCoupon ''SAVE20'' ''u1'' (Some sample_metadata) 1000 (empty_cache, sample_db))
       = Inr \<lparr>rr_couponCode = ''SAVE20'', rr_redeemedAt = 1000, rr_redemptionCount = 1,
              rr_redemptionsRemaining = Some 1, rr_fullyRedeemed = False\<rparr>
   \<and> findAssignment
        (snd (snd (redeemCoupon ''SAVE20'' ''u1'' (Some sample_metadata) 1000 (empty_cache, sample_db))))
        1
       = Some (sample_assignment\<lparr>a_redemptionCount := 1, a_redeemedAt := Some 1000,
                 a_lockedAt := None, a_lockExpiresAt := None,
                 a_metadata := Some sample_metadata\<rparr>)"
proof -
  let ?call = "redeemCoupon ''SAVE20'' ''u1'' (Some sample_metadata) 1000 (empty_cache, sample_db)"
  let ?resp = "\<lparr>rr_couponCode = ''SAVE20'', rr_redeemedAt = 1000, rr_redemptionCount = 1,
              rr_redemptionsRemaining = Some 1, rr_fullyRedeemed = False\<rparr>"
  have ok: "?call = (Inr ?resp, fst (snd ?call), snd (snd ?call))"
    by (simp add: sample_redeem)
  from redeem_assignment_row [OF sample_primary_keys sample_select ok]
  have "findAssignment (snd (snd ?call)) 1
       = Some (sample_assignment\<lparr>a_redemptionCount := 1, a_redeemedAt := Some 1000,
                 a_lockedAt := None, a_lockExpiresAt := None,
                 a_metadata := Some sample_metadata\<rparr>)"
    by (simp add: sample_assignment_def)
  then show ?thesis
    using sample_primary_keys sample_select by (simp add: sample_redeem)
qed

text \<open>
  Claim C3 as stated has the supplied metadata merged into the stored metadata.
  On the sample state the assignment stores an order id; a successful Redeem
  whose metadata has no order id leaves the row without one.
\<close>

theorem redeem_metadata_merge_counterexample:
  "fst (redeemCoupon ''SAVE20'' ''u1'' (Some sample_metadata) 1000 (empty_cache, sample_db))
     = Inr \<lparr>rr_couponCode = ''SAVE20'', rr_redeemedAt = 1000, rr_redemptionCount = 1,
            rr_redemptionsRemaining = Some 1, rr_fullyRedeemed = False\<rparr>
   \<and> storedMetadata sample_db 1 ''orderId'' = Some ''o-1''
   \<and> sample_metadata ''orderId'' = None
   \<and> storedMetadata
        (snd (snd (redeemCoupon ''SAVE20'' ''u1'' (Some sample_metadata) 1000 (empty_cache, sample_db))))
        1 ''orderId'' = None"
  unfolding sample_redeem sample_transaction
  by (simp add: storedMetadata_def findAssignment_def sample_defs sample_metadata_def)


section \<open>Versions of coupon rows\<close>

lemma version_step_same: "version_step c c"
  by (simp add: version_step_def)

lemma version_step_bump:
  "version_step c (c\<lparr>c_status := st, c_version := c_version c + 1, c_updatedAt := now\<rparr>)"
  by (simp add: version_step_def)

lemma version_steps_same: "list_all2 version_step cs cs"
  by (simp add: list_all2_same version_step_same)

lemma version_steps_map_bump:
  "list_all2 version_step cs
     (map (\<lambda>c. if P c then c\<lparr>c_status := st, c_version := c_version c + 1, c_updatedAt := now\<rparr>
               else c) cs)"
  by (simp add: list_all2_map2 list_all2_same version_step_same version_step_bump)

lemma managerUpdateCouponStatus_steps:
  "managerUpdateCouponStatus db couponId st now = Inr db'
   \<Longrightarrow> list_all2 version_step (coupons db) (coupons db')"
  by (auto simp: managerUpdateCouponStatus_def version_steps_map_bump split: if_splits)

lemma updateCouponIfVersion_steps:
  "updateCouponIfVersion db couponId st v now = Inr (q, db')
   \<Longrightarrow> list_all2 version_step (coupons db) (coupons db')"
  by (auto simp: updateCouponIfVersion_def Let_def version_steps_map_bump split: if_splits)

lemma saveNewAssignment_coupons:
  "saveNewAssignment db couponId userId now = Inr (a, db') \<Longrightarrow> coupons db' = coupons db"
  by (auto simp: saveNewAssignment_def Let_def split: if_splits)

lemma updateAssignmentLock_coupons [simp]:
  "coupons (updateAssignmentLock db couponId userId l e) = coupons db"
  by (simp add: updateAssignmentLock_def)

lemma transaction_steps:
  assumes "\<And>r db'. f db = Inr (r, db') \<Longrightarrow> list_all2 version_step (coupons db) (coupons db')"
  shows "list_all2 version_step (coupons db) (coupons (snd (transaction f db)))"
  using assms by (auto simp: transaction_def version_steps_same split: sum.splits)

lemma assignRandomCouponInTransaction_steps:
  "assignRandomCouponInTransaction couponBookId userId rnd now db = Inr (r, db')
   \<Longrightarrow> list_all2 version_step (coupons db) (coupons db')"
  by (auto simp: assignRandomCouponInTransaction_def
           dest!: saveNewAssignment_coupons managerUpdateCouponStatus_steps
           split: list.splits sum.splits)

lemma assignSpecificCouponInTransaction_steps:
  "assignSpecificCouponInTransaction coupon userId now db = Inr (r, db')
   \<Longrightarrow> list_all2 version_step (coupons db) (coupons db')"
  by (auto simp: assignSpecificCouponInTransaction_def Let_def
           dest!: saveNewAssignment_coupons managerUpdateCouponStatus_steps
           split: if_splits sum.splits)

lemma lockCouponInTransaction_steps:
  "lockCouponInTransaction code userId duration now db = Inr (r, db')
   \<Longrightarrow> list_all2 version_step (coupons db) (coupons db')"
  by (auto simp: lockCouponInTransaction_def Let_def
           dest!: managerUpdateCouponStatus_steps
           split: list.splits if_splits sum.splits)

lemma unlockCouponInTransaction_steps:
  "unlockCouponInTransaction code userId now db = Inr (r, db')
   \<Longrightarrow> list_all2 version_step (coupons db) (coupons db')"
  by (auto simp: unlockCouponInTransaction_def
           dest!: managerUpdateCouponStatus_steps
           split: list.splits if_splits sum.splits)

lemma redeemWrites_steps:
  "redeemWrites db couponId st v aid n mx fl md now = Inr (r, db')
   \<Longrightarrow> list_all2 version_step (coupons db) (coupons db')"
  by (auto simp: redeemWrites_def
           dest!: updateCouponIfVersion_steps updateAssignmentRedeemed_coupons
           split: sum.splits if_splits)

lemma redeemCouponInTransaction_steps:
  "redeemCouponInTransaction code userId md now db = Inr (r, db')
   \<Longrightarrow> list_all2 version_step (coupons db) (coupons db')"
  by (auto simp: redeemCouponInTransaction_def Let_def dest: redeemWrites_steps
           split: list.splits if_splits)

lemma assignRandomCoupon_steps:
  "list_all2 version_step (coupons db) (coupons (snd (assignRandomCoupon couponBookId userId rnd now db)))"
proof -
  have t: "list_all2 version_step (coupons db)
        (coupons (snd (transaction (assignRandomCouponInTransaction couponBookId userId rnd now) db)))"
    by (rule transaction_steps) (rule assignRandomCouponInTransaction_steps)
  show ?thesis
    using t by (auto simp: assignRandomCoupon_def version_steps_same split: sum.splits prod.splits)
qed

lemma assignSpecificCoupon_steps:
  "list_all2 version_step (coupons db) (coupons (snd (assignSpecificCoupon code userId now db)))"
proof -
  have t: "\<And>coupon. list_all2 version_step (coupons db)
        (coupons (snd (transaction (assignSpecificCouponInTransaction coupon userId now) db)))"
    by (rule transaction_steps) (rule assignSpecificCouponInTransaction_steps)
  show ?thesis
  proof (cases "find (\<lambda>c. c_code c = code) (coupons db)")
    case None
    then show ?thesis by (simp add: assignSpecificCoupon_def version_steps_same)
  next
    case (Some coupon)
    with t[of coupon] show ?thesis
      by (auto simp: assignSpecificCoupon_def version_steps_same split: option.splits sum.splits prod.splits)
  qed
qed

lemma lockCoupon_steps:
  "list_all2 version_step (coupons db) (coupons (snd (snd (lockCoupon code userId duration now (cache, db)))))"
proof -
  have t: "list_all2 version_step (coupons db)
        (coupons (snd (transaction (lockCouponInTransaction code userId duration now) db)))"
    by (rule transaction_steps) (rule lockCouponInTransaction_steps)
  show ?thesis
    using t by (auto simp: lockCoupon_def version_steps_same split: sum.splits prod.splits)
qed

lemma unlockCoupon_steps:
  "list_all2 version_step (coupons db) (coupons (snd (unlockCoupon code userId now db)))"
proof -
  have t: "list_all2 version_step (coupons db)
        (coupons (snd (transaction (unlockCouponInTransaction code userId now) db)))"
    by (rule transaction_steps) (rule unlockCouponInTransaction_steps)
  show ?thesis
    using t by (auto simp: unlockCoupon_def split: sum.splits prod.splits)
qed

lemma redeemCoupon_steps:
  "list_all2 version_step (coupons db) (coupons (snd (snd (redeemCoupon code userId md now (cache, db)))))"
proof -
  have t: "list_all2 version_step (coupons db)
        (coupons (snd (transaction (redeemCouponInTransaction code userId md now) db)))"
    by (rule transaction_steps) (rule redeemCouponInTransaction_steps)
  show ?thesis
    using t by (auto simp: redeemCoupon_def Let_def version_steps_same split: sum.splits prod.splits)
qed

lemma perform_steps:
  "list_all2 version_step (coupons db) (coupons (snd (perform op now (cache, db))))"
  by (cases op)
     (simp_all add: assignRandomCoupon_steps assignSpecificCoupon_steps lockCoupon_steps
        unlockCoupon_steps redeemCoupon_steps)

lemma insertCoupons_version:
  "c \<in> set (coupons (snd (insertCoupons db bookId st codes now)))
   \<Longrightarrow> c \<in> set (coupons db) \<or> c_version c = 1"
proof (induction codes arbitrary: db)
  case Nil
  then show ?case by simp
next
  case (Cons code codes)
  show ?case
  proof (cases "list_ex (\<lambda>c. c_code c = code) (coupons db)")
    case True
    with Cons show ?thesis by simp
  next
    case False
    let ?row = "\<lparr>c_id = freshId (map c_id (coupons db)), c_couponBookId = bookId, c_code = code,
                   c_status = st, c_version = 1, c_updatedAt = now\<rparr>"
    from False Cons.prems
    have "c \<in> set (coupons (snd (insertCoupons (db\<lparr>coupons := coupons db @ [?row]\<rparr>) bookId st codes now)))"
      by (simp add: Let_def split: prod.splits)
    from Cons.IH[OF this] show ?thesis by auto
  qed
qed

lemma batchLoop_version:
  "c \<in> set (coupons (snd (snd (batchLoop i codes bookId now (u, d, db)))))
   \<Longrightarrow> c \<in> set (coupons db) \<or> c_version c = 1"
proof (induction i codes bookId now "(u, d, db)" arbitrary: u d db rule: batchLoop.induct)
  case (1 i codes bookId now u d db)
  note unfold = batchLoop.simps[of i codes bookId now u d db]
  show ?case
  proof (cases "i < length codes")
    case False
    with "1.prems" show ?thesis by (simp add: unfold)
  next
    case True
    let ?batch = "take BATCH_SIZE (drop i codes)"
    obtain result db1 where ins: "insertCoupons db bookId AVAILABLE ?batch now = (result, db1)"
      by (cases "insertCoupons db bookId AVAILABLE ?batch now")
    from True ins
    have "batchLoop i codes bookId now (u, d, db) =
            batchLoop (i + BATCH_SIZE) codes bookId now
              (u + length result, d + (length ?batch - length result), db1)"
      by (simp add: unfold Let_def)
    with "1.prems"
    have "c \<in> set (coupons (snd (snd (batchLoop (i + BATCH_SIZE) codes bookId now
              (u + length result, d + (length ?batch - length result), db1)))))"
      by (simp)
    from "1.hyps"[OF True refl ins[symmetric] this]
    have "c \<in> set (coupons db1) \<or> c_version c = 1" .
    moreover have "c \<in> set (coupons db1) \<Longrightarrow> c \<in> set (coupons db) \<or> c_version c = 1"
      using insertCoupons_version[of c db bookId AVAILABLE ?batch now] ins by simp
    ultimately show ?thesis by blast
  qed
qed

lemma batchInsertCodes_version:
  "c \<in> set (coupons (snd (batchInsertCodes bookId codes now db)))
   \<Longrightarrow> c \<in> set (coupons db) \<or> c_version c = 1"
  using batchLoop_version[of c 0 codes bookId now 0 0 db]
  by (auto simp: batchInsertCodes_def split: prod.splits)

lemma sample_lock:
  "coupons (snd (perform (Lock ''SAVE20'' ''u1'' 300) 1000 (empty_cache, sample_db)))
     = [sample_coupon\<lparr>c_status := LOCKED, c_version := 3, c_updatedAt := 1000\<rparr>]"
  by (simp add: lockCoupon_def acquireLockLock_def acquireLock_def releaseLockLock_def
        releaseLock_def CacheKeyBuilder_lock_def CacheKeyBuilder_validate_def COUPON_LOCK_def
        MAX_KEY_LENGTH_def redis_exists_def empty_cache_def transaction_def
        lockCouponInTransaction_def selectForLock_def isValidStatusForRedemption_def
        managerUpdateCouponStatus_def updateAssignmentLock_def int4_def Let_def
        sample_db_def sample_coupon_def sample_assignment_def)

lemma sample_insert:
  "coupons (snd (batchInsertCodes 1 [''NEW001''] 1000 sample_db)) = [sample_coupon, new_coupon]"
  by (simp add: batchInsertCodes_def batchLoop.simps BATCH_SIZE_def freshId_def Let_def
        sample_db_def sample_coupon_def new_coupon_def split: prod.splits)


text \<open>
  Claim C4. Whatever one of AssignRandom, AssignSpecific, Lock, Unlock and Redeem
  does, every coupon row stays the same coupon, its version does not decrease,
  a row that has changed at all has its version incremented by one, and so the
  version strictly increases if the status has changed. Every coupon row that
  the bulk insert adds has version 1.
\<close>

theorem coupon_version_monotone:
  "list_all2 version_step (coupons db) (coupons (snd (perform op now (cache, db))))
   \<and> (\<forall>c \<in> set (coupons (snd (batchInsertCodes bookId codes now db))).
         c \<in> set (coupons db) \<or> c_version c = 1)"
  using perform_steps batchInsertCodes_version by blast


theorem coupon_version_monotone_witness:
  "c_status (hd (coupons (snd (perform (Lock ''SAVE20'' ''u1'' 300) 1000 (empty_cache, sample_db)))))
     \<noteq> c_status sample_coupon
   \<and> c_version sample_coupon
       < c_version (hd (coupons (snd (perform (Lock ''SAVE20'' ''u1'' 300) 1000 (empty_cache, sample_db)))))
   \<and> new_coupon \<in> set (coupons (snd (batchInsertCodes 1 [''NEW001''] 1000 sample_db)))
   \<and> new_coupon \<notin> set (coupons sample_db)
   \<and> c_version new_coupon = 1"
proof -
  let ?after = "coupons (snd (perform (Lock ''SAVE20'' ''u1'' 300) 1000 (empty_cache, sample_db)))"
  note mono = coupon_version_monotone
    [of sample_db "Lock ''SAVE20'' ''u1'' 300" 1000 empty_cache 1 "[''NEW001'']"]
  have changed: "c_status (hd ?after) \<noteq> c_status sample_coupon"
    unfolding sample_lock by (simp add: sample_coupon_def)
  from mono have "version_step sample_coupon (hd ?after)"
    unfolding sample_lock by (simp add: sample_db_def)
  with changed have up: "c_version sample_coupon < c_version (hd ?after)"
    by (simp add: version_step_def)
  have mem: "new_coupon \<in> set (coupons (snd (batchInsertCodes 1 [''NEW001''] 1000 sample_db)))"
    unfolding sample_insert by simp
  have new: "new_coupon \<notin> set (coupons sample_db)"
    by (simp add: sample_db_def sample_coupon_def new_coupon_def)
  from mono mem new have "c_version new_coupon = 1" by blast
  with changed up mem new show ?thesis by simp
qed

end
